theory Spec2Isabelle
  imports Main
begin

section \<open>Decoded JSON values and Python exceptions\<close>

text \<open>
  The values \<^verbatim>\<open>json.loads\<close> returns: \<^verbatim>\<open>None\<close>, \<^verbatim>\<open>bool\<close>, \<^verbatim>\<open>int\<close>, \<^verbatim>\<open>float\<close>, \<^verbatim>\<open>str\<close>,
  \<^verbatim>\<open>list\<close> and \<^verbatim>\<open>dict\<close>. A float is carried by its \<^verbatim>\<open>repr\<close>, which determines it. A dict is
  the list of its items in insertion order; the keys of a decoded dict are distinct, and a
  lookup takes the first item with the key. A \<^verbatim>\<open>str\<close> is a list of characters with codes
  below 256.
\<close>

datatype json =
    JNull
  | JBool bool
  | JInt int
  | JFloat string
  | JStr string
  | JList "json list"
  | JObj "(string \<times> json) list"

datatype exn = KeyError | TypeError | AttributeError | UnboundLocalError | ValueError

text \<open>Sequencing of computations that may raise: the first exception raised is the result.\<close>

definition ebind :: "exn + 'a \<Rightarrow> ('a \<Rightarrow> exn + 'b) \<Rightarrow> exn + 'b" where
  "ebind r f = (case r of Inl e \<Rightarrow> Inl e | Inr v \<Rightarrow> f v)"

text \<open>\<^verbatim>\<open>try: r  except KeyError: d\<close>: only a \<^verbatim>\<open>KeyError\<close> is caught.\<close>

definition except_KeyError :: "exn + 'a \<Rightarrow> 'a \<Rightarrow> exn + 'a" where
  "except_KeyError r d = (case r of Inl KeyError \<Rightarrow> Inr d | _ \<Rightarrow> r)"

text \<open>
  \<^verbatim>\<open>obj[key]\<close> with a \<^verbatim>\<open>str\<close> key. A dict without the key raises \<^verbatim>\<open>KeyError\<close>; a list, a
  str, a number, a bool and \<^verbatim>\<open>None\<close> raise \<^verbatim>\<open>TypeError\<close>.
\<close>

fun subscript :: "json \<Rightarrow> string \<Rightarrow> exn + json" where
  "subscript (JObj kvs) k = (case map_of kvs k of None \<Rightarrow> Inl KeyError | Some v \<Rightarrow> Inr v)"
| "subscript _ k = Inl TypeError"

section \<open>The builtin \<^verbatim>\<open>str\<close> on decoded values\<close>

fun nat_digits :: "nat \<Rightarrow> string" where
  "nat_digits n =
     (if n < 10 then [''0123456789'' ! n]
      else nat_digits (n div 10) @ [''0123456789'' ! (n mod 10)])"

declare nat_digits.simps [simp del]

definition int_str :: "int \<Rightarrow> string" where
  "int_str i = (if i < 0 then CHR ''-'' # nat_digits (nat (- i)) else nat_digits (nat i))"

definition hex2 :: "nat \<Rightarrow> string" where
  "hex2 n = [''0123456789abcdef'' ! (n div 16), ''0123456789abcdef'' ! (n mod 16)]"

definition printable :: "char \<Rightarrow> bool" where
  "printable c =
     (let n = (of_char c :: nat) in (32 \<le> n \<and> n < 127) \<or> (161 \<le> n \<and> n \<noteq> 173))"

text \<open>
  The escape of one character in the \<^verbatim>\<open>repr\<close> of a str delimited by the quote \<open>q\<close>.
\<close>

definition escape_char :: "char \<Rightarrow> char \<Rightarrow> string" where
  "escape_char q c =
     (if c = q \<or> c = CHR 0x5C then [CHR 0x5C, c]
      else if c = CHR 0x09 then [CHR 0x5C, CHR ''t'']
      else if c = CHR 0x0A then [CHR 0x5C, CHR ''n'']
      else if c = CHR 0x0D then [CHR 0x5C, CHR ''r'']
      else if printable c then [c]
      else [CHR 0x5C, CHR ''x''] @ hex2 (of_char c))"

definition str_repr :: "string \<Rightarrow> string" where
  "str_repr s =
     (let q = (if CHR 0x27 \<in> set s \<and> CHR 0x22 \<notin> set s then CHR 0x22 else CHR 0x27)
      in [q] @ concat (map (escape_char q) s) @ [q])"

fun join :: "string \<Rightarrow> string list \<Rightarrow> string" where
  "join sep [] = []"
| "join sep [x] = x"
| "join sep (x # y # ys) = x @ sep @ join sep (y # ys)"

fun py_repr :: "json \<Rightarrow> string" where
  "py_repr JNull = ''None''"
| "py_repr (JBool b) = (if b then ''True'' else ''False'')"
| "py_repr (JInt i) = int_str i"
| "py_repr (JFloat r) = r"
| "py_repr (JStr s) = str_repr s"
| "py_repr (JList xs) = ''['' @ join '', '' (map py_repr xs) @ '']''"
| "py_repr (JObj kvs) =
     ''{'' @ join '', '' (map (\<lambda>(k, v). str_repr k @ '': '' @ py_repr v) kvs) @ ''}''"

text \<open>\<^verbatim>\<open>str(v)\<close>: a str is returned as it is, every other value gives its \<^verbatim>\<open>repr\<close>.\<close>

definition py_str :: "json \<Rightarrow> string" where
  "py_str v = (case v of JStr s \<Rightarrow> s | _ \<Rightarrow> py_repr v)"

section \<open>Stats normalization: \<^verbatim>\<open>get_relevant_information\<close>\<close>

text \<open>
  One block of the source,
  \<^verbatim>\<open>try: x = str(player_stats[k1][k2][k3])  except KeyError: x = "0"\<close>.
\<close>

definition stat_field :: "json \<Rightarrow> string \<Rightarrow> string \<Rightarrow> string \<Rightarrow> exn + json" where
  "stat_field player_stats k1 k2 k3 =
     except_KeyError
       (ebind (ebind (ebind (subscript player_stats k1) (\<lambda>x. subscript x k2))
                (\<lambda>y. subscript y k3))
          (\<lambda>v. Inr (JStr (py_str v))))
       (JStr ''0'')"

text \<open>
  The body of \<^verbatim>\<open>get_relevant_information\<close> after the fetch, on the decoded stats bundle:
  the fourteen blocks in source order, then the returned list.
\<close>

definition extract_relevant_information :: "json \<Rightarrow> exn + json list" where
  "extract_relevant_information player_stats =
     ebind (stat_field player_stats ''chess_rapid'' ''best'' ''rating'') (\<lambda>rapid_rating.
     ebind (stat_field player_stats ''chess_rapid'' ''record'' ''win'') (\<lambda>rapid_wins.
     ebind (stat_field player_stats ''chess_rapid'' ''record'' ''loss'') (\<lambda>rapid_losses.
     ebind (stat_field player_stats ''chess_rapid'' ''record'' ''draw'') (\<lambda>rapid_draws.
     ebind (stat_field player_stats ''chess_blitz'' ''best'' ''rating'') (\<lambda>blitz_rating.
     ebind (stat_field player_stats ''chess_blitz'' ''record'' ''win'') (\<lambda>blitz_wins.
     ebind (stat_field player_stats ''chess_blitz'' ''record'' ''loss'') (\<lambda>blitz_losses.
     ebind (stat_field player_stats ''chess_blitz'' ''record'' ''draw'') (\<lambda>blitz_draws.
     ebind (stat_field player_stats ''chess_bullet'' ''best'' ''rating'') (\<lambda>bullet_rating.
     ebind (stat_field player_stats ''chess_bullet'' ''record'' ''win'') (\<lambda>bullet_wins.
     ebind (stat_field player_stats ''chess_bullet'' ''record'' ''loss'') (\<lambda>bullet_losses.
     ebind (stat_field player_stats ''chess_bullet'' ''record'' ''draw'') (\<lambda>bullet_draws.
     ebind (stat_field player_stats ''tactics'' ''highest'' ''rating'') (\<lambda>tactics_rating.
     ebind (stat_field player_stats ''puzzle_rush'' ''best'' ''score'') (\<lambda>puzzle_rush_rating.
     Inr [rapid_rating, rapid_wins, rapid_losses, rapid_draws,
          blitz_rating, blitz_wins, blitz_losses, blitz_draws,
          bullet_rating, bullet_wins, bullet_losses, bullet_draws,
          tactics_rating, puzzle_rush_rating]))))))))))))))"

text \<open>The fourteen key paths the blocks read, in the order of the returned list.\<close>

definition stats_paths :: "string list list" where
  "stats_paths =
     [[''chess_rapid'', ''best'', ''rating''], [''chess_rapid'', ''record'', ''win''],
      [''chess_rapid'', ''record'', ''loss''], [''chess_rapid'', ''record'', ''draw''],
      [''chess_blitz'', ''best'', ''rating''], [''chess_blitz'', ''record'', ''win''],
      [''chess_blitz'', ''record'', ''loss''], [''chess_blitz'', ''record'', ''draw''],
      [''chess_bullet'', ''best'', ''rating''], [''chess_bullet'', ''record'', ''win''],
      [''chess_bullet'', ''record'', ''loss''], [''chess_bullet'', ''record'', ''draw''],
      [''tactics'', ''highest'', ''rating''], [''puzzle_rush'', ''best'', ''score'']]"

text \<open>
  Where a key path leads in a decoded value: to a value, to a dict that lacks the next key,
  or to something that is not a dict although a key is still to be read.
\<close>

datatype path_result = Present json | Missing | NotAMapping

fun resolve :: "json \<Rightarrow> string list \<Rightarrow> path_result" where
  "resolve v [] = Present v"
| "resolve (JObj kvs) (k # ks) = (case map_of kvs k of None \<Rightarrow> Missing | Some v \<Rightarrow> resolve v ks)"
| "resolve _ (k # ks) = NotAMapping"

text \<open>What one block yields for the place its path leads to.\<close>

definition field_of :: "path_result \<Rightarrow> exn + json" where
  "field_of r =
     (case r of Present v \<Rightarrow> Inr (JStr (py_str v)) | Missing \<Rightarrow> Inr (JStr ''0'')
      | NotAMapping \<Rightarrow> Inl TypeError)"

fun collect :: "(exn + 'a) list \<Rightarrow> exn + 'a list" where
  "collect [] = Inr []"
| "collect (r # rs) = ebind r (\<lambda>v. ebind (collect rs) (\<lambda>vs. Inr (v # vs)))"

text \<open>The field a block emits when it does not raise.\<close>

definition shown :: "path_result \<Rightarrow> json" where
  "shown r = (case r of Present v \<Rightarrow> JStr (py_str v) | _ \<Rightarrow> JStr ''0'')"

section \<open>Profile normalization: \<^verbatim>\<open>get_other_data\<close>\<close>

text \<open>
  \<^verbatim>\<open>s.replace(old, new)\<close>: the occurrences of \<open>old\<close> are found from the left, without
  overlap, and each is replaced by \<open>new\<close>; an empty \<open>old\<close> matches before every
  character and at the end.
\<close>

function py_replace :: "string \<Rightarrow> string \<Rightarrow> string \<Rightarrow> string" where
  "py_replace old new s =
     (if old = [] then new @ concat (map (\<lambda>c. c # new) s)
      else if s = [] then []
      else if take (length old) s = old
        then new @ py_replace old new (drop (length old) s)
      else hd s # py_replace old new (tl s))"
  by pat_completeness auto
termination
  by (relation "measure (\<lambda>(old, new, s). length s)") auto

declare py_replace.simps [simp del]

text \<open>\<^verbatim>\<open>old in s\<close> for strs.\<close>

fun occurs :: "string \<Rightarrow> string \<Rightarrow> bool" where
  "occurs old [] = (old = [])"
| "occurs old (c # cs) = (take (length old) (c # cs) = old \<or> occurs old cs)"

definition country_prefix :: string where
  "country_prefix = ''https://api.chess.com/pub/country/''"

definition strip_country :: "string \<Rightarrow> string" where
  "strip_country s = py_replace country_prefix [] s"

text \<open>
  \<^verbatim>\<open>location_data['country'].replace("https://api.chess.com/pub/country/", '')\<close>: the
  subscript raises as above, and only a str has the method \<^verbatim>\<open>replace\<close>.
\<close>

definition country_field :: "json \<Rightarrow> exn + json" where
  "country_field location_data =
     ebind (subscript location_data ''country'')
       (\<lambda>c. case c of JStr s \<Rightarrow> Inr (JStr (strip_country s)) | _ \<Rightarrow> Inl AttributeError)"

definition location_field :: "json \<Rightarrow> exn + json" where
  "location_field location_data =
     except_KeyError (subscript location_data ''location'')
       (JStr ''No Location Data Available'')"

definition title_field :: "json \<Rightarrow> exn + json" where
  "title_field location_data =
     except_KeyError (subscript location_data ''title'') (JStr ''None'')"

text \<open>The body of \<^verbatim>\<open>get_other_data\<close> after the fetch, on the decoded profile bundle.\<close>

definition extract_other_data :: "json \<Rightarrow> exn + json list" where
  "extract_other_data location_data =
     ebind (country_field location_data) (\<lambda>country.
     ebind (location_field location_data) (\<lambda>location.
     ebind (title_field location_data) (\<lambda>title.
     Inr [country, location, title])))"

section \<open>The fetches\<close>

text \<open>
  The three endpoints are the environment: for a title or a player name, the decoded body,
  or the failure of \<^verbatim>\<open>urlopen\<close>, \<^verbatim>\<open>read\<close>, \<^verbatim>\<open>decode\<close> or \<^verbatim>\<open>json.loads\<close>.
\<close>

datatype fetch_failure = TransportFailure | DecodeFailure

record world =
  titled_response :: "string \<Rightarrow> fetch_failure + json"
  stats_response :: "string \<Rightarrow> fetch_failure + json"
  profile_response :: "string \<Rightarrow> fetch_failure + json"

text \<open>
  An environment given by three tables; a request for a name that has no entry fails in
  transport.
\<close>

definition table_response :: "(string \<times> json) list \<Rightarrow> string \<Rightarrow> fetch_failure + json" where
  "table_response t k = (case map_of t k of None \<Rightarrow> Inl TransportFailure | Some v \<Rightarrow> Inr v)"

definition table_world ::
  "(string \<times> json) list \<Rightarrow> (string \<times> json) list \<Rightarrow> (string \<times> json) list \<Rightarrow> world" where
  "table_world titled stats profiles =
     \<lparr>titled_response = table_response titled, stats_response = table_response stats,
      profile_response = table_response profiles\<rparr>"

text \<open>
  Each fetching function assigns its local variable inside \<^verbatim>\<open>try\<close>, prints the exception in
  \<^verbatim>\<open>except Exception\<close>, and reads the variable after the block: when the block raised, the
  variable is unbound and the read raises \<^verbatim>\<open>UnboundLocalError\<close>. The prints are not
  modelled.
\<close>

definition get_list_of_titled_players :: "world \<Rightarrow> string \<Rightarrow> exn + json" where
  "get_list_of_titled_players w title =
     (case titled_response w title of
        Inl failure \<Rightarrow> Inl UnboundLocalError
      | Inr list_of_users \<Rightarrow> subscript list_of_users ''players'')"

text \<open>
  The player comes from the decoded membership list, so it is any decoded value; the
  concatenation of the URL with a player that is not a str raises \<^verbatim>\<open>TypeError\<close> inside the
  \<^verbatim>\<open>try\<close> block.
\<close>

definition compute_stats :: "world \<Rightarrow> json \<Rightarrow> exn + json" where
  "compute_stats w player =
     (case player of
        JStr name \<Rightarrow>
          (case stats_response w name of
             Inl failure \<Rightarrow> Inl UnboundLocalError
           | Inr player_data \<Rightarrow> Inr player_data)
      | _ \<Rightarrow> Inl UnboundLocalError)"

definition get_relevant_information :: "world \<Rightarrow> json \<Rightarrow> exn + json list" where
  "get_relevant_information w player =
     ebind (compute_stats w player) extract_relevant_information"

definition get_other_data :: "world \<Rightarrow> json \<Rightarrow> exn + json list" where
  "get_other_data w player =
     (case player of
        JStr name \<Rightarrow>
          (case profile_response w name of
             Inl failure \<Rightarrow> Inl UnboundLocalError
           | Inr location_data \<Rightarrow> extract_other_data location_data)
      | _ \<Rightarrow> Inl UnboundLocalError)"

definition create_entry :: "world \<Rightarrow> json \<Rightarrow> exn + json list" where
  "create_entry w player =
     ebind (get_relevant_information w player) (\<lambda>stats.
     ebind (get_other_data w player) (\<lambda>other.
     Inr (stats @ other)))"

section \<open>The schema\<close>

definition FIDE_TITLES :: "string list" where
  "FIDE_TITLES = [''GM'', ''WGM'', ''IM'', ''WIM'', ''FM'', ''WFM'', ''NM'', ''WNM'', ''CM'', ''WCM'']"

definition FEATURES :: "string list" where
  "FEATURES =
     [''rapid_rating'', ''rapid_wins'', ''rapid_losses'', ''rapid_draws'',
      ''blitz_rating'', ''blitz_wins'', ''blitz_losses'', ''blitz_draws'',
      ''bullet_rating'', ''bullet_wins'', ''bullet_losses'', ''bullet_draws'',
      ''tactics_rating'', ''puzzle_rush_rating'', ''country'', ''location'', ''title'']"

text \<open>
  The local variables of \<^verbatim>\<open>get_relevant_information\<close> and \<^verbatim>\<open>get_other_data\<close> by name:
  what the source assigns to each, given the two decoded bundles.
\<close>

definition variable :: "json \<Rightarrow> json \<Rightarrow> string \<Rightarrow> (exn + json) option" where
  "variable player_stats location_data name =
     map_of
       [(''rapid_rating'', stat_field player_stats ''chess_rapid'' ''best'' ''rating''),
        (''rapid_wins'', stat_field player_stats ''chess_rapid'' ''record'' ''win''),
        (''rapid_losses'', stat_field player_stats ''chess_rapid'' ''record'' ''loss''),
        (''rapid_draws'', stat_field player_stats ''chess_rapid'' ''record'' ''draw''),
        (''blitz_rating'', stat_field player_stats ''chess_blitz'' ''best'' ''rating''),
        (''blitz_wins'', stat_field player_stats ''chess_blitz'' ''record'' ''win''),
        (''blitz_losses'', stat_field player_stats ''chess_blitz'' ''record'' ''loss''),
        (''blitz_draws'', stat_field player_stats ''chess_blitz'' ''record'' ''draw''),
        (''bullet_rating'', stat_field player_stats ''chess_bullet'' ''best'' ''rating''),
        (''bullet_wins'', stat_field player_stats ''chess_bullet'' ''record'' ''win''),
        (''bullet_losses'', stat_field player_stats ''chess_bullet'' ''record'' ''loss''),
        (''bullet_draws'', stat_field player_stats ''chess_bullet'' ''record'' ''draw''),
        (''tactics_rating'', stat_field player_stats ''tactics'' ''highest'' ''rating''),
        (''puzzle_rush_rating'', stat_field player_stats ''puzzle_rush'' ''best'' ''score''),
        (''country'', country_field location_data),
        (''location'', location_field location_data),
        (''title'', title_field location_data)]
       name"

definition is_str :: "json \<Rightarrow> bool" where
  "is_str v = (case v of JStr s \<Rightarrow> True | _ \<Rightarrow> False)"

section \<open>The dataset builder: \<^verbatim>\<open>create_data_frame\<close>\<close>

text \<open>
  \<^verbatim>\<open>current_dict\<close>: the items in insertion order. \<^verbatim>\<open>d[k] = v\<close> replaces the value of a key
  that is there, in its place, and appends a new key at the end.
\<close>

type_synonym dataset = "(json \<times> json list) list"

fun dict_set :: "('k \<times> 'v) list \<Rightarrow> 'k \<Rightarrow> 'v \<Rightarrow> ('k \<times> 'v) list" where
  "dict_set [] k v = [(k, v)]"
| "dict_set ((k', v') # d) k v =
     (if k' = k then (k', v) # d else (k', v') # dict_set d k v)"

text \<open>
  \<^verbatim>\<open>for player in x\<close>: a list gives its elements, a dict its keys, a str its characters;
  the other decoded values are not iterable.
\<close>

fun py_iter :: "json \<Rightarrow> exn + json list" where
  "py_iter (JList xs) = Inr xs"
| "py_iter (JObj kvs) = Inr (map (\<lambda>kv. JStr (fst kv)) kvs)"
| "py_iter (JStr s) = Inr (map (\<lambda>c. JStr [c]) s)"
| "py_iter _ = Inl TypeError"

text \<open>The inner loop: \<^verbatim>\<open>current_dict[player] = create_entry(player)\<close> for each player.\<close>

fun add_players :: "world \<Rightarrow> dataset \<Rightarrow> json list \<Rightarrow> exn + dataset" where
  "add_players w current_dict [] = Inr current_dict"
| "add_players w current_dict (player # players) =
     (case create_entry w player of
        Inl e \<Rightarrow> Inl e
      | Inr entry \<Rightarrow> add_players w (dict_set current_dict player entry) players)"

text \<open>
  The outer loop, from a given \<^verbatim>\<open>current_dict\<close>. The result is the files written, each
  with the rows of the data frame it was written from, and the exception that ended the
  run, if one did. A data frame built from an empty dict has no columns, and assigning the
  seventeen names to its columns raises \<^verbatim>\<open>ValueError\<close>; every row has seventeen fields
  otherwise. Failures of the file system are not modelled.
\<close>

fun title_loop ::
  "world \<Rightarrow> dataset \<Rightarrow> string list \<Rightarrow> (string \<times> dataset) list \<times> exn option" where
  "title_loop w current_dict [] = ([], None)"
| "title_loop w current_dict (title # titles) =
     (case ebind (ebind (get_list_of_titled_players w title) py_iter)
             (add_players w current_dict) of
        Inl e \<Rightarrow> ([], Some e)
      | Inr current_dict' \<Rightarrow>
          if current_dict' = [] then ([], Some ValueError)
          else
            (case title_loop w current_dict' titles of
               (written, outcome) \<Rightarrow>
                 ((''chess_data_'' @ title @ ''.csv'', current_dict') # written, outcome)))"

text \<open>\<^verbatim>\<open>current_dict = dict()\<close> is executed once, before the loop over the titles.\<close>

definition create_data_frame ::
  "world \<Rightarrow> string list \<Rightarrow> (string \<times> dataset) list \<times> exn option" where
  "create_data_frame w fide_titles = title_loop w [] fide_titles"

section \<open>Properties of the stats normalization\<close>

lemma ebind_Inr [simp]: "ebind (Inr v) f = f v"
  by (simp add: ebind_def)

lemma ebind_Inl [simp]: "ebind (Inl e) f = Inl e"
  by (simp add: ebind_def)

lemma ebind_assoc: "ebind (ebind r f) g = ebind r (\<lambda>v. ebind (f v) g)"
  by (cases r) simp_all

lemma stat_field_resolve:
  "stat_field d k1 k2 k3 = field_of (resolve d [k1, k2, k3])"
proof (cases d)
  case (JObj kvs)
  show ?thesis
  proof (cases "map_of kvs k1")
    case None
    with JObj show ?thesis
      by (simp add: stat_field_def field_of_def except_KeyError_def)
  next
    case (Some x)
    show ?thesis
    proof (cases x)
      case (JObj kvs2)
      show ?thesis
      proof (cases "map_of kvs2 k2")
        case None
        with \<open>d = JObj kvs\<close> Some JObj show ?thesis
          by (simp add: stat_field_def field_of_def except_KeyError_def)
      next
        case inner: (Some y)
        show ?thesis
        proof (cases y)
          case (JObj kvs3)
          with \<open>d = JObj kvs\<close> Some \<open>x = JObj kvs2\<close> inner show ?thesis
            by (cases "map_of kvs3 k3")
               (simp_all add: stat_field_def field_of_def except_KeyError_def)
        qed (use \<open>d = JObj kvs\<close> Some \<open>x = JObj kvs2\<close> inner in
              \<open>simp_all add: stat_field_def field_of_def except_KeyError_def\<close>)
      qed
    qed (use \<open>d = JObj kvs\<close> Some in
          \<open>simp_all add: stat_field_def field_of_def except_KeyError_def\<close>)
  qed
qed (simp_all add: stat_field_def field_of_def except_KeyError_def)

lemma extract_relevant_information_collect:
  "extract_relevant_information d = collect (map (\<lambda>p. field_of (resolve d p)) stats_paths)"
  unfolding extract_relevant_information_def stats_paths_def stat_field_resolve
  by (simp add: ebind_assoc)

lemma collect_fields:
  "collect (map (\<lambda>p. field_of (resolve d p)) ps) =
     (if \<exists>p\<in>set ps. resolve d p = NotAMapping then Inl TypeError
      else Inr (map (\<lambda>p. shown (resolve d p)) ps))"
  by (induction ps) (auto simp: field_of_def shown_def split: path_result.splits)

lemma extract_relevant_information_cases:
  "extract_relevant_information d =
     (if \<exists>p\<in>set stats_paths. resolve d p = NotAMapping then Inl TypeError
      else Inr (map (\<lambda>p. shown (resolve d p)) stats_paths))"
  by (simp only: extract_relevant_information_collect collect_fields)

lemma ebind_eq_Inr: "ebind r f = Inr y \<longleftrightarrow> (\<exists>v. r = Inr v \<and> f v = Inr y)"
  by (cases r) simp_all

lemma py_str_2400: "py_str (JInt 2400) = ''2400''"
  by (simp add: py_str_def int_str_def nat_digits.simps)

lemma py_str_10: "py_str (JInt 10) = ''10''"
  by (simp add: py_str_def int_str_def nat_digits.simps)

text \<open>
  C1. When every one of the fourteen key paths is missing from the stats bundle (the bundle,
  or a dict reached along the path, lacks the next key), the stats normalization returns
  the list of fourteen fields, each the string \<^verbatim>\<open>"0"\<close>.
\<close>

theorem all_paths_missing_all_defaults:
  assumes "\<forall>p\<in>set stats_paths. resolve player_stats p = Missing"
  shows "extract_relevant_information player_stats =
           Inr [JStr ''0'', JStr ''0'', JStr ''0'', JStr ''0'', JStr ''0'', JStr ''0'',
                JStr ''0'', JStr ''0'', JStr ''0'', JStr ''0'', JStr ''0'', JStr ''0'',
                JStr ''0'', JStr ''0'']"
proof -
  have no_type_error: "\<not> (\<exists>p\<in>set stats_paths. resolve player_stats p = NotAMapping)"
    using assms by auto
  have "map (\<lambda>p. shown (resolve player_stats p)) stats_paths =
          map (\<lambda>p. JStr ''0'') stats_paths"
    using assms by (intro map_cong) (auto simp: shown_def)
  then show ?thesis
    using no_type_error by (simp add: extract_relevant_information_cases stats_paths_def)
qed

text \<open>The bundle \<^verbatim>\<open>{"chess_rapid": {}}\<close>: every path runs into a missing key.\<close>

theorem all_paths_missing_all_defaults_witness:
  "extract_relevant_information (JObj [(''chess_rapid'', JObj [])]) =
     Inr [JStr ''0'', JStr ''0'', JStr ''0'', JStr ''0'', JStr ''0'', JStr ''0'',
          JStr ''0'', JStr ''0'', JStr ''0'', JStr ''0'', JStr ''0'', JStr ''0'',
          JStr ''0'', JStr ''0'']"
proof -
  have h: "\<forall>p\<in>set stats_paths. resolve (JObj [(''chess_rapid'', JObj [])]) p = Missing"
    by (simp add: stats_paths_def)
  show ?thesis
    using all_paths_missing_all_defaults [OF h] by simp
qed

text \<open>
  C2, as the code has it. In a stats bundle in which no key path runs into a value that is
  not a dict, the lookups are independent: the normalization returns the fourteen fields,
  and each field is the \<^verbatim>\<open>str\<close> of the value at its own path when the path is present and
  \<^verbatim>\<open>"0"\<close> when a key of the path is missing, whatever the other paths are. This holds in
  particular for the four paths of each speed category.
\<close>

theorem lookups_independent:
  assumes "\<forall>p\<in>set stats_paths. resolve player_stats p \<noteq> NotAMapping"
  shows "extract_relevant_information player_stats =
           Inr (map (\<lambda>p. shown (resolve player_stats p)) stats_paths)"
  using assms by (simp add: extract_relevant_information_cases)

text \<open>
  A rapid rating without a record object, and a blitz record (wins only) without a best
  rating.
\<close>

theorem lookups_independent_witness:
  "extract_relevant_information
     (JObj [(''chess_rapid'', JObj [(''best'', JObj [(''rating'', JInt 2400)])]),
            (''chess_blitz'', JObj [(''record'', JObj [(''win'', JInt 10)])])]) =
     Inr [JStr ''2400'', JStr ''0'', JStr ''0'', JStr ''0'',
          JStr ''0'', JStr ''10'', JStr ''0'', JStr ''0'',
          JStr ''0'', JStr ''0'', JStr ''0'', JStr ''0'', JStr ''0'', JStr ''0'']"
proof -
  let ?d = "JObj [(''chess_rapid'', JObj [(''best'', JObj [(''rating'', JInt 2400)])]),
                  (''chess_blitz'', JObj [(''record'', JObj [(''win'', JInt 10)])])]"
  have h: "\<forall>p\<in>set stats_paths. resolve ?d p \<noteq> NotAMapping"
    by (simp add: stats_paths_def)
  show ?thesis
    using lookups_independent [OF h]
    by (simp add: stats_paths_def shown_def py_str_2400 py_str_10)
qed

text \<open>
  Stated for every stats bundle, the claim fails: in
  \<^verbatim>\<open>{"chess_rapid": {"best": {"rating": 2400}, "record": 5}}\<close> the path to the rapid rating
  is present, and the lookup of the wins raises \<^verbatim>\<open>TypeError\<close>, which no block catches, so
  the rating is not extracted.
\<close>

theorem malformed_record_blocks_rating:
  "resolve
     (JObj [(''chess_rapid'',
              JObj [(''best'', JObj [(''rating'', JInt 2400)]), (''record'', JInt 5)])])
     [''chess_rapid'', ''best'', ''rating''] = Present (JInt 2400) \<and>
   extract_relevant_information
     (JObj [(''chess_rapid'',
              JObj [(''best'', JObj [(''rating'', JInt 2400)]), (''record'', JInt 5)])])
     = Inl TypeError"
  by (simp add: extract_relevant_information_cases stats_paths_def)

text \<open>
  C10. A block substitutes \<^verbatim>\<open>"0"\<close> exactly when a key of its path is missing from a dict;
  when the path runs into a value that is not a dict the block raises \<^verbatim>\<open>TypeError\<close>. The
  stats normalization raises \<^verbatim>\<open>TypeError\<close>, and returns no fields at all, exactly when one
  of the fourteen paths does so.
\<close>

theorem non_mapping_component_raises:
  "stat_field player_stats k1 k2 k3 =
     (case resolve player_stats [k1, k2, k3] of
        Present v \<Rightarrow> Inr (JStr (py_str v))
      | Missing \<Rightarrow> Inr (JStr ''0'')
      | NotAMapping \<Rightarrow> Inl TypeError) \<and>
   (extract_relevant_information player_stats = Inl TypeError \<longleftrightarrow>
      (\<exists>p\<in>set stats_paths. resolve player_stats p = NotAMapping))"
  by (simp add: stat_field_resolve field_of_def extract_relevant_information_cases)

text \<open>The bundles \<^verbatim>\<open>{"chess_rapid": 1500}\<close> and \<^verbatim>\<open>{"tactics": {"highest": []}}\<close>.\<close>

theorem non_mapping_component_raises_witness:
  "extract_relevant_information (JObj [(''chess_rapid'', JInt 1500)]) = Inl TypeError \<and>
   extract_relevant_information (JObj [(''tactics'', JObj [(''highest'', JList [])])])
     = Inl TypeError"
proof -
  have "\<exists>p\<in>set stats_paths. resolve (JObj [(''chess_rapid'', JInt 1500)]) p = NotAMapping"
    and "\<exists>p\<in>set stats_paths.
           resolve (JObj [(''tactics'', JObj [(''highest'', JList [])])]) p = NotAMapping"
    by (simp_all add: stats_paths_def)
  then show ?thesis
    using non_mapping_component_raises [of "JObj [(''chess_rapid'', JInt 1500)]"]
      non_mapping_component_raises [of "JObj [(''tactics'', JObj [(''highest'', JList [])])]"]
    by simp
qed

section \<open>Properties of the profile normalization\<close>

lemma py_replace_no_occurrence:
  "old \<noteq> [] \<Longrightarrow> \<not> occurs old s \<Longrightarrow> py_replace old new s = s"
proof (induction s)
  case Nil
  then show ?case by (subst py_replace.simps) simp
next
  case (Cons c cs)
  then have "py_replace old new cs = cs" by simp
  with Cons.prems show ?case by (subst py_replace.simps) simp
qed

lemma py_replace_at_front:
  "old \<noteq> [] \<Longrightarrow> py_replace old new (old @ s) = new @ py_replace old new s"
  by (subst py_replace.simps) simp

lemma country_prefix_not_in_US: "\<not> occurs country_prefix ''US''"
  by (simp add: country_prefix_def)

lemma strip_NO: "strip_country ''https://api.chess.com/pub/country/NO'' = ''NO''"
  by code_simp

lemma country_field_resolve:
  "country_field p =
     (case resolve p [''country''] of
        Present (JStr s) \<Rightarrow> Inr (JStr (strip_country s))
      | Present _ \<Rightarrow> Inl AttributeError
      | Missing \<Rightarrow> Inl KeyError
      | NotAMapping \<Rightarrow> Inl TypeError)"
  by (cases p) (simp_all add: country_field_def split: option.splits json.splits)

lemma location_field_resolve:
  "location_field p =
     (case resolve p [''location''] of
        Present v \<Rightarrow> Inr v
      | Missing \<Rightarrow> Inr (JStr ''No Location Data Available'')
      | NotAMapping \<Rightarrow> Inl TypeError)"
  by (cases p) (simp_all add: location_field_def except_KeyError_def split: option.splits)

lemma title_field_resolve:
  "title_field p =
     (case resolve p [''title''] of
        Present v \<Rightarrow> Inr v
      | Missing \<Rightarrow> Inr (JStr ''None'')
      | NotAMapping \<Rightarrow> Inl TypeError)"
  by (cases p) (simp_all add: title_field_def except_KeyError_def split: option.splits)

text \<open>
  C5, as the code has it. The country value \<^verbatim>\<open>"https://api.chess.com/pub/country/US"\<close>
  yields exactly \<^verbatim>\<open>"US"\<close>. Stripping leaves unchanged every value in which the URL prefix
  does not occur, a bare country code among them, and it turns the prefix followed by such
  a value into that value. So stripping twice is stripping once wherever the stripped value
  is free of the prefix.
\<close>

theorem strip_country_without_prefix:
  "strip_country ''https://api.chess.com/pub/country/US'' = ''US'' \<and>
   (\<not> occurs country_prefix s \<longrightarrow> strip_country s = s) \<and>
   (\<not> occurs country_prefix s \<longrightarrow> strip_country (country_prefix @ s) = s) \<and>
   (\<not> occurs country_prefix (strip_country s) \<longrightarrow>
      strip_country (strip_country s) = strip_country s)"
proof -
  have ne: "country_prefix \<noteq> []" by (simp add: country_prefix_def)
  have front: "strip_country (country_prefix @ t) = strip_country t" for t
    using py_replace_at_front [OF ne, of "[]" t] by (simp add: strip_country_def)
  have keep: "strip_country t = t" if "\<not> occurs country_prefix t" for t
    using py_replace_no_occurrence [OF ne that] by (simp add: strip_country_def)
  have "strip_country (country_prefix @ ''US'') = ''US''"
    using front [of "''US''"] keep [OF country_prefix_not_in_US] by simp
  then have "strip_country ''https://api.chess.com/pub/country/US'' = ''US''"
    by (simp add: country_prefix_def)
  with front keep show ?thesis by simp
qed

theorem strip_country_without_prefix_witness:
  "strip_country ''NO'' = ''NO'' \<and> strip_country (country_prefix @ ''NO'') = ''NO''"
proof -
  have h: "\<not> occurs country_prefix ''NO''" by (simp add: country_prefix_def)
  show ?thesis using strip_country_without_prefix [of "''NO''"] h by simp
qed

text \<open>
  Stripping is not idempotent on every str: \<^verbatim>\<open>replace\<close> removes the occurrences it finds
  from the left, and the removal can put a new occurrence together. The value below is
  \<^verbatim>\<open>"h"\<close>, the prefix, and the prefix without its first letter, before \<^verbatim>\<open>"US"\<close>.
\<close>

theorem strip_country_not_idempotent:
  "strip_country ''hhttps://api.chess.com/pub/country/ttps://api.chess.com/pub/country/US''
     = ''https://api.chess.com/pub/country/US'' \<and>
   strip_country ''https://api.chess.com/pub/country/US'' = ''US'' \<and>
   strip_country
     (strip_country ''hhttps://api.chess.com/pub/country/ttps://api.chess.com/pub/country/US'')
   \<noteq> strip_country ''hhttps://api.chess.com/pub/country/ttps://api.chess.com/pub/country/US''"
  by code_simp

text \<open>
  C6. For a profile bundle that has the key \<^verbatim>\<open>country\<close> and neither \<^verbatim>\<open>location\<close> nor
  \<^verbatim>\<open>title\<close>, the record of the profile normalization is the stripped country, then
  \<^verbatim>\<open>"No Location Data Available"\<close> as location and \<^verbatim>\<open>"None"\<close> as title. (A country that
  is not a str has no method \<^verbatim>\<open>replace\<close>, and no record is returned.)
\<close>

theorem only_country_gives_defaults:
  assumes "map_of kvs ''country'' = Some c"
    and "map_of kvs ''location'' = None"
    and "map_of kvs ''title'' = None"
  shows "extract_other_data (JObj kvs) =
           (case c of
              JStr s \<Rightarrow>
                Inr [JStr (strip_country s), JStr ''No Location Data Available'', JStr ''None'']
            | _ \<Rightarrow> Inl AttributeError)"
  using assms
  by (simp add: extract_other_data_def country_field_resolve location_field_resolve
        title_field_resolve split: json.splits)

theorem only_country_gives_defaults_witness:
  "extract_other_data (JObj [(''country'', JStr ''https://api.chess.com/pub/country/NO'')]) =
     Inr [JStr ''NO'', JStr ''No Location Data Available'', JStr ''None'']"
  using only_country_gives_defaults
    [of "[(''country'', JStr ''https://api.chess.com/pub/country/NO'')]"
        "JStr ''https://api.chess.com/pub/country/NO''"]
  by (simp add: strip_NO)

text \<open>
  C7. When the key \<^verbatim>\<open>country\<close> is missing from the profile bundle the profile normalization
  raises \<^verbatim>\<open>KeyError\<close>, and it raises \<^verbatim>\<open>KeyError\<close> in no other case: with a str as country it
  returns a record whether \<^verbatim>\<open>location\<close> and \<^verbatim>\<open>title\<close> are there or not. A missing
  rating, record, tactics or puzzle rush path does not surface: the stats normalization
  returns its fields whenever no path runs into a value that is not a dict, and when it
  raises, the exception is \<^verbatim>\<open>TypeError\<close> and some path does run into such a value.
\<close>

theorem missing_country_raises:
  "(resolve p [''country''] = Missing \<longrightarrow> extract_other_data p = Inl KeyError) \<and>
   (extract_other_data p = Inl KeyError \<longrightarrow> resolve p [''country''] = Missing) \<and>
   (resolve p [''country''] = Present (JStr s) \<longrightarrow> (\<exists>row. extract_other_data p = Inr row)) \<and>
   ((\<forall>q\<in>set stats_paths. resolve d q \<noteq> NotAMapping) \<longrightarrow>
      (\<exists>row. extract_relevant_information d = Inr row)) \<and>
   (extract_relevant_information d = Inl e \<longrightarrow>
      e = TypeError \<and> (\<exists>q\<in>set stats_paths. resolve d q = NotAMapping))"
proof (intro conjI impI)
  assume "resolve p [''country''] = Missing"
  then show "extract_other_data p = Inl KeyError"
    by (simp add: extract_other_data_def country_field_resolve)
next
  assume "extract_other_data p = Inl KeyError"
  then show "resolve p [''country''] = Missing"
    by (cases p)
       (auto simp: extract_other_data_def country_field_resolve location_field_resolve
          title_field_resolve split: option.splits json.splits)
next
  assume "resolve p [''country''] = Present (JStr s)"
  then show "\<exists>row. extract_other_data p = Inr row"
    by (cases p)
       (auto simp: extract_other_data_def country_field_resolve location_field_resolve
          title_field_resolve split: option.splits)
next
  assume "\<forall>q\<in>set stats_paths. resolve d q \<noteq> NotAMapping"
  then show "\<exists>row. extract_relevant_information d = Inr row"
    by (simp add: extract_relevant_information_cases)
next
  assume raised: "extract_relevant_information d = Inl e"
  then show "e = TypeError"
    by (simp add: extract_relevant_information_cases split: if_splits)
  from raised show "\<exists>q\<in>set stats_paths. resolve d q = NotAMapping"
    by (simp add: extract_relevant_information_cases split: if_splits)
qed

text \<open>
  A profile with a location and no country; a profile with the country only; a stats bundle
  with an empty rapid object, in which every path runs into a missing key.
\<close>

theorem missing_country_raises_witness:
  "extract_other_data (JObj [(''location'', JStr ''Oslo'')]) = Inl KeyError \<and>
   (\<exists>row. extract_other_data (JObj [(''country'', JStr ''NO'')]) = Inr row) \<and>
   (\<exists>row. extract_relevant_information (JObj [(''chess_rapid'', JObj [])]) = Inr row)"
proof -
  have h: "\<forall>q\<in>set stats_paths. resolve (JObj [(''chess_rapid'', JObj [])]) q \<noteq> NotAMapping"
    by (simp add: stats_paths_def)
  show ?thesis
    using missing_country_raises [of "JObj [(''location'', JStr ''Oslo'')]"]
      missing_country_raises [of "JObj [(''country'', JStr ''NO'')]" "''NO''"]
      missing_country_raises [of _ _ "JObj [(''chess_rapid'', JObj [])]"] h
    by simp
qed

section \<open>Properties of the emitted record\<close>

lemma create_entry_fetched:
  assumes "stats_response w name = Inr player_stats"
    and "profile_response w name = Inr location_data"
  shows "create_entry w (JStr name) =
           ebind (extract_relevant_information player_stats) (\<lambda>stats.
           ebind (extract_other_data location_data) (\<lambda>other. Inr (stats @ other)))"
  using assms
  by (simp add: create_entry_def get_relevant_information_def compute_stats_def
        get_other_data_def)

lemma extract_relevant_information_Inr:
  assumes "extract_relevant_information d = Inr stats"
  shows "\<exists>v1 v2 v3 v4 v5 v6 v7 v8 v9 v10 v11 v12 v13 v14.
           stats = [v1, v2, v3, v4, v5, v6, v7, v8, v9, v10, v11, v12, v13, v14] \<and>
           stat_field d ''chess_rapid'' ''best'' ''rating'' = Inr v1 \<and>
           stat_field d ''chess_rapid'' ''record'' ''win'' = Inr v2 \<and>
           stat_field d ''chess_rapid'' ''record'' ''loss'' = Inr v3 \<and>
           stat_field d ''chess_rapid'' ''record'' ''draw'' = Inr v4 \<and>
           stat_field d ''chess_blitz'' ''best'' ''rating'' = Inr v5 \<and>
           stat_field d ''chess_blitz'' ''record'' ''win'' = Inr v6 \<and>
           stat_field d ''chess_blitz'' ''record'' ''loss'' = Inr v7 \<and>
           stat_field d ''chess_blitz'' ''record'' ''draw'' = Inr v8 \<and>
           stat_field d ''chess_bullet'' ''best'' ''rating'' = Inr v9 \<and>
           stat_field d ''chess_bullet'' ''record'' ''win'' = Inr v10 \<and>
           stat_field d ''chess_bullet'' ''record'' ''loss'' = Inr v11 \<and>
           stat_field d ''chess_bullet'' ''record'' ''draw'' = Inr v12 \<and>
           stat_field d ''tactics'' ''highest'' ''rating'' = Inr v13 \<and>
           stat_field d ''puzzle_rush'' ''best'' ''score'' = Inr v14"
  using assms unfolding extract_relevant_information_def ebind_eq_Inr by blast

lemma extract_other_data_Inr:
  assumes "extract_other_data p = Inr other"
  shows "\<exists>c l t. other = [c, l, t] \<and> country_field p = Inr c \<and>
           location_field p = Inr l \<and> title_field p = Inr t"
  using assms unfolding extract_other_data_def ebind_eq_Inr by blast

text \<open>
  The scenario of the specification: a blitz rating and record only, and a profile with the
  country only.
\<close>

lemma scenario_entry:
  "create_entry
     (table_world []
        [(''hikaru'', JObj [(''chess_blitz'',
            JObj [(''best'', JObj [(''rating'', JInt 2400)]),
                  (''record'', JObj [(''win'', JInt 10), (''loss'', JInt 2), (''draw'', JInt 1)])])])]
        [(''hikaru'', JObj [(''country'', JStr ''https://api.chess.com/pub/country/NO'')])])
     (JStr ''hikaru'') =
   Inr [JStr ''0'', JStr ''0'', JStr ''0'', JStr ''0'',
        JStr ''2400'', JStr ''10'', JStr ''2'', JStr ''1'',
        JStr ''0'', JStr ''0'', JStr ''0'', JStr ''0'', JStr ''0'', JStr ''0'',
        JStr ''NO'', JStr ''No Location Data Available'', JStr ''None'']"
  by code_simp

lemma located_entry:
  "create_entry
     (table_world [] [(''magnus'', JObj [])]
        [(''magnus'', JObj [(''country'', JStr ''https://api.chess.com/pub/country/NO''),
                            (''location'', JStr ''Oslo''), (''title'', JStr ''GM'')])])
     (JStr ''magnus'') =
   Inr [JStr ''0'', JStr ''0'', JStr ''0'', JStr ''0'', JStr ''0'', JStr ''0'', JStr ''0'',
        JStr ''0'', JStr ''0'', JStr ''0'', JStr ''0'', JStr ''0'', JStr ''0'', JStr ''0'',
        JStr ''NO'', JStr ''Oslo'', JStr ''GM'']"
  by code_simp

text \<open>
  C8. Whatever the two bundles hold, a record that \<^verbatim>\<open>create_entry\<close> returns has seventeen
  fields, as many as \<^verbatim>\<open>FEATURES\<close> has names, and the field at each position is the value the
  source assigns to the variable that the name at this position of \<^verbatim>\<open>FEATURES\<close> names.
\<close>

theorem create_entry_schema:
  assumes "stats_response w name = Inr player_stats"
    and "profile_response w name = Inr location_data"
    and "create_entry w (JStr name) = Inr entry"
  shows "length entry = 17 \<and> length FEATURES = 17 \<and>
         map (variable player_stats location_data) FEATURES = map (\<lambda>v. Some (Inr v)) entry"
proof -
  from assms obtain stats other where
    s: "extract_relevant_information player_stats = Inr stats" and
    ot: "extract_other_data location_data = Inr other" and
    e: "entry = stats @ other"
    by (auto simp: create_entry_fetched ebind_eq_Inr)
  from extract_relevant_information_Inr [OF s] extract_other_data_Inr [OF ot] e
  show ?thesis
    by (auto simp: FEATURES_def variable_def)
qed

theorem create_entry_schema_witness:
  "map (variable
         (JObj [(''chess_blitz'',
            JObj [(''best'', JObj [(''rating'', JInt 2400)]),
                  (''record'', JObj [(''win'', JInt 10), (''loss'', JInt 2), (''draw'', JInt 1)])])])
         (JObj [(''country'', JStr ''https://api.chess.com/pub/country/NO'')]))
     FEATURES =
   map (\<lambda>v. Some (Inr v))
     [JStr ''0'', JStr ''0'', JStr ''0'', JStr ''0'',
      JStr ''2400'', JStr ''10'', JStr ''2'', JStr ''1'',
      JStr ''0'', JStr ''0'', JStr ''0'', JStr ''0'', JStr ''0'', JStr ''0'',
      JStr ''NO'', JStr ''No Location Data Available'', JStr ''None'']"
  using create_entry_schema [OF _ _ scenario_entry]
  by (simp add: table_world_def table_response_def)

text \<open>
  C9, as the code has it. A record that \<^verbatim>\<open>create_entry\<close> returns has seventeen fields. The
  first fifteen, the stats fields and the country, are strs. The location and the title
  are the values of the profile bundle as they are, of whatever type, and the default strs
  when the keys are missing.
\<close>

theorem create_entry_field_types:
  assumes "stats_response w name = Inr player_stats"
    and "profile_response w name = Inr location_data"
    and "create_entry w (JStr name) = Inr entry"
  shows "length entry = 17 \<and> list_all is_str (take 15 entry) \<and>
         entry ! 15 =
           (case resolve location_data [''location''] of
              Present v \<Rightarrow> v | _ \<Rightarrow> JStr ''No Location Data Available'') \<and>
         entry ! 16 =
           (case resolve location_data [''title''] of
              Present v \<Rightarrow> v | _ \<Rightarrow> JStr ''None'')"
proof -
  from assms obtain stats other where
    s: "extract_relevant_information player_stats = Inr stats" and
    ot: "extract_other_data location_data = Inr other" and
    e: "entry = stats @ other"
    by (auto simp: create_entry_fetched ebind_eq_Inr)
  from s have stats: "stats = map (\<lambda>p. shown (resolve player_stats p)) stats_paths"
    by (simp add: extract_relevant_information_cases split: if_splits)
  have shown_str: "is_str (shown r)" for r
    by (cases r) (simp_all add: shown_def is_str_def)
  have "list_all is_str stats" and "length stats = 14"
    unfolding stats by (simp_all add: list_all_iff shown_str stats_paths_def)
  moreover from extract_other_data_Inr [OF ot] obtain c l t where
    "other = [c, l, t]" "country_field location_data = Inr c"
    "location_field location_data = Inr l" "title_field location_data = Inr t"
    by blast
  moreover from this have "is_str c"
    by (auto simp: country_field_resolve is_str_def split: path_result.splits json.splits)
  ultimately show ?thesis
    using e
    by (auto simp: location_field_resolve title_field_resolve nth_append
          split: path_result.splits)
qed

theorem create_entry_field_types_witness:
  "list_all is_str
     (take 15
        [JStr ''0'', JStr ''0'', JStr ''0'', JStr ''0'', JStr ''0'', JStr ''0'', JStr ''0'',
         JStr ''0'', JStr ''0'', JStr ''0'', JStr ''0'', JStr ''0'', JStr ''0'', JStr ''0'',
         JStr ''NO'', JStr ''Oslo'', JStr ''GM''])"
  using create_entry_field_types [OF _ _ located_entry]
  by (simp add: table_world_def table_response_def)

text \<open>
  With \<^verbatim>\<open>"location": null\<close> in the profile bundle the normalization succeeds and the
  location field of the record is \<^verbatim>\<open>None\<close>, which is not a str.
\<close>

theorem null_location_is_not_a_string:
  "create_entry
     (table_world [] [(''a'', JObj [])]
        [(''a'', JObj [(''country'', JStr ''https://api.chess.com/pub/country/US''),
                       (''location'', JNull)])])
     (JStr ''a'') =
   Inr [JStr ''0'', JStr ''0'', JStr ''0'', JStr ''0'', JStr ''0'', JStr ''0'', JStr ''0'',
        JStr ''0'', JStr ''0'', JStr ''0'', JStr ''0'', JStr ''0'', JStr ''0'', JStr ''0'',
        JStr ''US'', JNull, JStr ''None''] \<and>
   \<not> is_str JNull"
  by code_simp

section \<open>The dataset builder on two runs\<close>

text \<open>
  C3. The claim asks for a dataset that starts empty with each title and holds at most as
  many entries as the title has members. The source creates \<^verbatim>\<open>current_dict\<close> once, before
  the loop over the titles, and never empties it: with one member \<^verbatim>\<open>a\<close> of \<^verbatim>\<open>GM\<close> and one
  member \<^verbatim>\<open>b\<close> of \<^verbatim>\<open>IM\<close>, the file written for \<^verbatim>\<open>IM\<close> has the two rows \<^verbatim>\<open>a\<close> and \<^verbatim>\<open>b\<close>.
\<close>

theorem dataset_accumulates_across_titles:
  "create_data_frame
     (table_world
        [(''GM'', JObj [(''players'', JList [JStr ''a''])]),
         (''IM'', JObj [(''players'', JList [JStr ''b''])])]
        [(''a'', JObj []), (''b'', JObj [])]
        [(''a'', JObj [(''country'', JStr ''https://api.chess.com/pub/country/US'')]),
         (''b'', JObj [(''country'', JStr ''https://api.chess.com/pub/country/NO'')])])
     [''GM'', ''IM''] =
   ([(''chess_data_GM.csv'',
      [(JStr ''a'',
        [JStr ''0'', JStr ''0'', JStr ''0'', JStr ''0'', JStr ''0'', JStr ''0'', JStr ''0'',
         JStr ''0'', JStr ''0'', JStr ''0'', JStr ''0'', JStr ''0'', JStr ''0'', JStr ''0'',
         JStr ''US'', JStr ''No Location Data Available'', JStr ''None''])]),
     (''chess_data_IM.csv'',
      [(JStr ''a'',
        [JStr ''0'', JStr ''0'', JStr ''0'', JStr ''0'', JStr ''0'', JStr ''0'', JStr ''0'',
         JStr ''0'', JStr ''0'', JStr ''0'', JStr ''0'', JStr ''0'', JStr ''0'', JStr ''0'',
         JStr ''US'', JStr ''No Location Data Available'', JStr ''None'']),
       (JStr ''b'',
        [JStr ''0'', JStr ''0'', JStr ''0'', JStr ''0'', JStr ''0'', JStr ''0'', JStr ''0'',
         JStr ''0'', JStr ''0'', JStr ''0'', JStr ''0'', JStr ''0'', JStr ''0'', JStr ''0'',
         JStr ''NO'', JStr ''No Location Data Available'', JStr ''None''])])],
    None)"
  by code_simp

text \<open>
  C4. The claim asks that a player whose fetch fails is left out and that the other players
  of the title are processed. In the source the failed fetch leaves \<^verbatim>\<open>player_data\<close>
  unbound, \<^verbatim>\<open>return player_data\<close> raises \<^verbatim>\<open>UnboundLocalError\<close>, and nothing catches it: with
  the members \<^verbatim>\<open>a\<close>, \<^verbatim>\<open>b\<close>, \<^verbatim>\<open>c\<close> of \<^verbatim>\<open>GM\<close> and a stats fetch that fails in transport for
  \<^verbatim>\<open>b\<close>, the run ends with the exception and writes no file, so the row of \<^verbatim>\<open>a\<close> is lost
  and \<^verbatim>\<open>c\<close> is never fetched.
\<close>

theorem failed_fetch_aborts_run:
  "stats_response
     (table_world
        [(''GM'', JObj [(''players'', JList [JStr ''a'', JStr ''b'', JStr ''c''])])]
        [(''a'', JObj []), (''c'', JObj [])]
        [(''a'', JObj [(''country'', JStr ''https://api.chess.com/pub/country/US'')]),
         (''b'', JObj [(''country'', JStr ''https://api.chess.com/pub/country/SE'')]),
         (''c'', JObj [(''country'', JStr ''https://api.chess.com/pub/country/NO'')])])
     ''b'' = Inl TransportFailure \<and>
   create_data_frame
     (table_world
        [(''GM'', JObj [(''players'', JList [JStr ''a'', JStr ''b'', JStr ''c''])])]
        [(''a'', JObj []), (''c'', JObj [])]
        [(''a'', JObj [(''country'', JStr ''https://api.chess.com/pub/country/US'')]),
         (''b'', JObj [(''country'', JStr ''https://api.chess.com/pub/country/SE'')]),
         (''c'', JObj [(''country'', JStr ''https://api.chess.com/pub/country/NO'')])])
     [''GM''] =
   ([], Some UnboundLocalError)"
  by code_simp

end
